theory Spec2Isabelle
  imports Main
begin

section \<open>The pause action plugin (plugins/action/pause.py)\<close>

text \<open>
  The plugin suspends a play, reads raw keystrokes from the controlling terminal, and
  returns what was typed. Its surroundings are made explicit:
  \<^item> byte strings and text are \<open>string\<close>s (a text stands for its encoded bytes, so
    \<open>str.encode\<close> and \<open>to_text\<close> are the identity);
  \<^item> the terminals of the machine are a store from terminal numbers to attributes, so
    that standard input and standard output may name the same terminal or two;
  \<^item> the process-wide alarm, the installed signal handler, everything displayed or
    written, and the number of bytes consumed from standard input are fields of the
    \<open>world\<close> that every operation passes on;
  \<^item> a call that never returns has the value \<open>None\<close>;
  \<^item> the alarm goes off only while a read is blocked, and the terminal, being in raw
    mode, delivers the interrupt character as a byte and not as a signal;
  \<^item> \<open>termios.tcflush\<close> discards what was typed before the loop: the stream of the
    model is what the reads after it receive;
  \<^item> timestamps (\<open>start\<close>, \<open>stop\<close>, \<open>delta\<close>, \<open>stdout\<close>) are not modelled.
\<close>

type_synonym bytes = string

subsection \<open>Exceptions, task arguments, results\<close>

datatype exn =
    AnsibleError string
  | AnsibleTimeoutExceeded
  | UnboundLocalError string
  | TypeError string
  | OverflowError string

text \<open>
  \<open>boolean\<close> (Ansible) and \<open>int\<close> (Python) are library functions. An option holds what
  the conversion does on the value the task supplied. \<open>boolean\<close> yields a truth value or
  raises \<open>TypeError\<close>, its parse failure. \<open>int\<close> yields an integer, or raises
  \<open>ValueError\<close>, its parse failure on a string that is no number, or raises
  \<open>TypeError\<close> on a value that is neither a string nor a number (a null, a list), or
  raises \<open>OverflowError\<close> on an infinite float.
\<close>

datatype bool_conv = BoolValue bool | BoolTypeError string

datatype int_conv =
    IntValue int
  | IntValueError string
  | IntTypeError string
  | IntOverflowError string

record task_args =
  arg_echo :: "bool_conv option"
  arg_prompt :: "string option"
  arg_seconds :: "int_conv option"
  arg_timeout_answer :: "string option"

record result =
  changed :: bool
  rc :: int
  failed :: bool
  msg :: "string option"
  res_echo :: "bool option"
  user_input :: "bytes option"

datatype outcome = Returned result | Raised exn

definition result0 :: result where
  "result0 = \<lparr>changed = False, rc = 0, failed = False, msg = None, res_echo = None,
     user_input = None\<rparr>"

subsection \<open>Terminals, streams and the world\<close>

text \<open>
  \<open>tty.setraw\<close> is a library function; of the attributes it changes the model keeps the
  two the plugin relies on: raw mode is on and the driver's echo is off.
\<close>

record tattr =
  raw_mode :: bool
  lflag_echo :: bool
  cc_vintr :: char
  cc_verase :: char

datatype fd = NotATty | Tty nat

datatype out_event = Display string | Warning string | Write bytes | Flush

text \<open>
  One \<open>read(1)\<close> on standard input yields one byte, or the empty byte string at end of
  file, or it blocks because no byte ever arrives: then only a signal ends it.
\<close>

datatype read_result = Byte char | EOF | Blocked

record world =
  terminals :: "nat \<Rightarrow> tattr"
  alarm :: nat
  sigalrm_handler :: bool
  out_log :: "out_event list"
  reads :: nat

text \<open>
  \<open>task_name\<close> is the stripped name of the task. \<open>MOVE_TO_BOL\<close> and \<open>CLEAR_TO_EOL\<close>
  are the module constants of lines 160 to 165: the fixed defaults without curses, and
  with curses what \<open>curses.tigetstr\<close> gave, which is \<open>None\<close> for a capability the
  terminal type does not have.
\<close>

record env =
  task_name :: string
  MOVE_TO_BOL :: "bytes option"
  CLEAR_TO_EOL :: "bytes option"
  new_stdin :: "fd option"
  sys_stdout :: fd
  termios_VINTR :: bool
  termios_VERASE :: bool
  stdin_data :: "nat \<Rightarrow> read_result"

definition isatty :: "fd \<Rightarrow> bool" where
  "isatty f = (case f of Tty t \<Rightarrow> True | NotATty \<Rightarrow> False)"

definition display :: "string \<Rightarrow> world \<Rightarrow> world" where
  "display s w = w\<lparr>out_log := out_log w @ [Display s]\<rparr>"

definition warning :: "string \<Rightarrow> world \<Rightarrow> world" where
  "warning s w = w\<lparr>out_log := out_log w @ [Warning s]\<rparr>"

definition stdout_write :: "bytes \<Rightarrow> world \<Rightarrow> world" where
  "stdout_write b w = w\<lparr>out_log := out_log w @ [Write b]\<rparr>"

definition stdout_flush :: "world \<Rightarrow> world" where
  "stdout_flush w = w\<lparr>out_log := out_log w @ [Flush]\<rparr>"

text \<open>
  The bytes formatting \<open>b'\x1b[%s' % x\<close> of lines 177 and 178. It raises \<open>TypeError\<close>
  when \<open>x\<close> is \<open>None\<close>.
\<close>

definition format_error :: exn where
  "format_error =
     TypeError (''%b requires a bytes-like object, or an object that implements ''
       @ ''__bytes__, not 'NoneType'' @ [CHR 0x27])"

definition escape_seq :: "bytes option \<Rightarrow> exn + bytes" where
  "escape_seq x = (case x of None \<Rightarrow> Inl format_error | Some b \<Rightarrow> Inr ([CHR 0x1B, CHR ''[''] @ b))"

text \<open>
  \<open>clear_line\<close>: two writes, each of which may raise while it formats. The result is the
  exception raised, if any, and the world reached.
\<close>

definition clear_line :: "env \<Rightarrow> world \<Rightarrow> exn option \<times> world" where
  "clear_line e w =
     (case escape_seq (MOVE_TO_BOL e) of
        Inl x \<Rightarrow> (Some x, w)
      | Inr m \<Rightarrow>
          (case escape_seq (CLEAR_TO_EOL e) of
             Inl x \<Rightarrow> (Some x, stdout_write m w)
           | Inr c \<Rightarrow> (None, stdout_write c (stdout_write m w))))"

definition setraw :: "nat \<Rightarrow> world \<Rightarrow> world" where
  "setraw t w =
     w\<lparr>terminals := (terminals w)(t := (terminals w t)\<lparr>raw_mode := True, lflag_echo := False\<rparr>)\<rparr>"

definition set_echo :: "nat \<Rightarrow> world \<Rightarrow> world" where
  "set_echo t w = w\<lparr>terminals := (terminals w)(t := (terminals w t)\<lparr>lflag_echo := True\<rparr>)\<rparr>"

definition tcsetattr :: "nat \<Rightarrow> tattr \<Rightarrow> world \<Rightarrow> world" where
  "tcsetattr t a w = w\<lparr>terminals := (terminals w)(t := a)\<rparr>"

text \<open>
  \<open>stdin.read(1)\<close>. A blocked read is ended by the alarm when one is armed and
  \<open>timeout_handler\<close> is installed: the handler raises \<open>AnsibleTimeoutExceeded\<close> and the
  alarm, being one-shot, is no longer armed. Otherwise the read never returns.
\<close>

definition read1 :: "env \<Rightarrow> world \<Rightarrow> ((exn + bytes) \<times> world) option" where
  "read1 e w =
     (case stdin_data e (reads w) of
        Byte c \<Rightarrow> Some (Inr [c], w\<lparr>reads := Suc (reads w)\<rparr>)
      | EOF \<Rightarrow> Some (Inr [], w\<lparr>reads := Suc (reads w)\<rparr>)
      | Blocked \<Rightarrow>
          if 0 < alarm w \<and> sigalrm_handler w
          then Some (Inl AnsibleTimeoutExceeded, w\<lparr>alarm := 0\<rparr>)
          else None)"

subsection \<open>Bytes\<close>

definition lower_char :: "char \<Rightarrow> char" where
  "lower_char c =
     (case map_of (zip ''ABCDEFGHIJKLMNOPQRSTUVWXYZ'' ''abcdefghijklmnopqrstuvwxyz'') c of
        None \<Rightarrow> c
      | Some d \<Rightarrow> d)"

definition lower :: "bytes \<Rightarrow> bytes" where
  "lower b = map lower_char b"

text \<open>Python's \<open>k in b\<close> on two byte strings: \<open>k\<close> occurs in \<open>b\<close> as a contiguous run.\<close>

primrec bytes_in :: "bytes \<Rightarrow> bytes \<Rightarrow> bool" where
  "bytes_in k [] = (k = [])"
| "bytes_in k (b # bs) = (take (length k) (b # bs) = k \<or> bytes_in k bs)"

text \<open>
  \<open>backspace\<close> is the driver's erase entry, a byte string, or the fallback list of two
  byte strings; \<open>key_pressed in backspace\<close> means containment in the first case and
  membership in the second.
\<close>

datatype erase = EraseBytes bytes | EraseList "bytes list"

fun is_erase :: "bytes \<Rightarrow> erase \<Rightarrow> bool" where
  "is_erase k (EraseBytes b) = bytes_in k b"
| "is_erase k (EraseList bs) = (k \<in> set bs)"

fun str_nat :: "nat \<Rightarrow> string" where
  "str_nat n =
     (if n < 10 then [''0123456789'' ! n]
      else str_nat (n div 10) @ [''0123456789'' ! (n mod 10)])"

definition str_int :: "int \<Rightarrow> string" where
  "str_int i = (if i < 0 then CHR ''-'' # str_nat (nat (- i)) else str_nat (nat i))"

subsection \<open>The interrupt sub-dialog: \<open>_c_or_a\<close>\<close>

partial_function (option) c_or_a :: "env \<Rightarrow> world \<Rightarrow> ((exn + bool) \<times> world) option" where
  "c_or_a e w =
     (case read1 e w of
        None \<Rightarrow> None
      | Some (Inl x, w') \<Rightarrow> Some (Inl x, w')
      | Some (Inr key_pressed, w') \<Rightarrow>
          if lower key_pressed = ''a'' then Some (Inr False, w')
          else if lower key_pressed = ''c'' then Some (Inr True, w')
          else c_or_a e w')"

subsection \<open>The read loop of \<open>run\<close>\<close>

record locals =
  stdin_fd :: "fd option"
  intr :: "bytes option"
  backspace :: "erase option"
  echo :: "bool option"

datatype loop_exit = Break | Raise exn

text \<open>The handler \<open>except KeyboardInterrupt\<close> inside the loop.\<close>

definition on_keyboard_interrupt ::
  "env \<Rightarrow> bytes \<Rightarrow> world \<Rightarrow> (loop_exit \<times> bytes \<times> world) option" where
  "on_keyboard_interrupt e ui w =
     (case c_or_a e
             (display (''Press 'C' to continue the play or 'A' to abort '' @ [CHR 0x0D])
                (w\<lparr>alarm := 0\<rparr>)) of
        None \<Rightarrow> None
      | Some (Inl x, w') \<Rightarrow> Some (Raise x, ui, w')
      | Some (Inr True, w') \<Rightarrow>
          (case clear_line e w' of
             (Some x, w2) \<Rightarrow> Some (Raise x, ui, w2)
           | (None, w2) \<Rightarrow> Some (Break, ui, w2))
      | Some (Inr False, w') \<Rightarrow>
          (case clear_line e w' of
             (Some x, w2) \<Rightarrow> Some (Raise x, ui, w2)
           | (None, w2) \<Rightarrow> Some (Raise (AnsibleError ''user requested abort!''), ui, w2)))"

text \<open>
  The \<open>while True\<close> loop. A local name that was never assigned is \<open>None\<close>, and reading
  it raises \<open>UnboundLocalError\<close>.
\<close>

partial_function (option) read_loop ::
  "env \<Rightarrow> locals \<Rightarrow> bytes \<Rightarrow> world \<Rightarrow> (loop_exit \<times> bytes \<times> world) option" where
  "read_loop e l ui w =
     (case stdin_fd l of
        None \<Rightarrow>
          Some (Break, ui,
            warning ''Not waiting for response to prompt as stdin is not interactive'' w)
      | Some f \<Rightarrow>
          (case read1 e w of
             None \<Rightarrow> None
           | Some (Inl x, w1) \<Rightarrow> Some (Raise x, ui, w1)
           | Some (Inr key_pressed, w1) \<Rightarrow>
               (case intr l of
                  None \<Rightarrow> Some (Raise (UnboundLocalError ''intr''), ui, w1)
                | Some i \<Rightarrow>
                    if key_pressed = i then
                      (case clear_line e w1 of
                         (Some x, w2) \<Rightarrow> Some (Raise x, ui, w2)
                       | (None, w2) \<Rightarrow> on_keyboard_interrupt e ui w2)
                    else if \<not> isatty f then
                      Some (Break, ui,
                        warning ''Not waiting for response to prompt as stdin is not interactive''
                          w1)
                    else if key_pressed = [CHR 0x0D] \<or> key_pressed = [CHR 0x0A] then
                      (case clear_line e w1 of
                         (Some x, w2) \<Rightarrow> Some (Raise x, ui, w2)
                       | (None, w2) \<Rightarrow> Some (Break, ui, w2))
                    else
                      (case backspace l of
                         None \<Rightarrow> Some (Raise (UnboundLocalError ''backspace''), ui, w1)
                       | Some b \<Rightarrow>
                           if is_erase key_pressed b then
                             (case clear_line e w1 of
                                (Some x, w2) \<Rightarrow> Some (Raise x, butlast ui, w2)
                              | (None, w2) \<Rightarrow>
                                  read_loop e l (butlast ui)
                                    (stdout_flush
                                      (if echo l = Some True
                                       then stdout_write (butlast ui) w2
                                       else w2)))
                           else read_loop e l (ui @ key_pressed) w1))))"

subsection \<open>\<open>run\<close>\<close>

text \<open>
  Lines 251 to 276: arming the alarm and showing the prompt. \<open>signal.alarm\<close> takes a C
  \<open>int\<close> and raises \<open>OverflowError\<close> for a greater number, after the handler was
  installed. The result is the exception raised, if any, and the world reached.
\<close>

definition announce ::
  "task_args \<Rightarrow> string \<Rightarrow> string \<Rightarrow> int option \<Rightarrow> world \<Rightarrow> exn option \<times> world" where
  "announce a prompt echo_prompt seconds w =
     (case seconds of
        None \<Rightarrow> (None, display prompt w)
      | Some s0 \<Rightarrow>
          (let s = (if s0 < 1 then 1 else s0);
               w0 = w\<lparr>sigalrm_handler := True\<rparr>
           in if 2147483648 \<le> s then
                (Some (OverflowError ''signed integer is greater than maximum''), w0)
              else
                (let w1 = w0\<lparr>alarm := nat s\<rparr>
                 in if arg_prompt a = None then
                      (let w2 = display
                             (''Pausing for '' @ str_int s @ '' seconds'' @ echo_prompt) w1;
                           w3 = display
                             (''(ctrl+C then 'C' = continue early, ctrl+C then 'A' = abort)''
                                @ [CHR 0x0D]) w2
                       in (None, if arg_prompt a \<noteq> None then display prompt w3 else w3))
                    else
                      (None, display prompt
                         (display (''Pausing for '' @ str_int s @ '' seconds!'') w1)))))"

text \<open>
  Lines 282 to 327: the descriptors, the interrupt and erase characters, the snapshot
  \<open>old_settings\<close>, and the switch to raw mode. The result is the locals of the loop,
  the snapshot (if one was taken) and the world.
\<close>

definition tty_setup :: "env \<Rightarrow> bool option \<Rightarrow> world \<Rightarrow> locals \<times> tattr option \<times> world" where
  "tty_setup e ec w =
     (case new_stdin e of
        None \<Rightarrow> (\<lparr>stdin_fd = None, intr = None, backspace = None, echo = ec\<rparr>, None, w)
      | Some NotATty \<Rightarrow>
          (\<lparr>stdin_fd = Some NotATty, intr = None, backspace = None, echo = ec\<rparr>, None, w)
      | Some (Tty t) \<Rightarrow>
          (let i = (if termios_VINTR e then [cc_vintr (terminals w t)] else [CHR 0x03]);
               b = (if termios_VERASE e then EraseBytes [cc_verase (terminals w t)]
                    else EraseList [[CHR 0x7F], [CHR 0x08]]);
               old_settings = terminals w t;
               w1 = setraw t w;
               w2 = (case sys_stdout e of Tty u \<Rightarrow> setraw u w1 | NotATty \<Rightarrow> w1);
               w3 = (if ec = Some True then set_echo t w2 else w2)
           in (\<lparr>stdin_fd = Some (Tty t), intr = Some i, backspace = Some b, echo = ec\<rparr>,
               Some old_settings, w3)))"

text \<open>
  Lines 370 to 378: the handler \<open>except AnsibleTimeoutExceeded\<close>. The result is the
  exception the handler itself raises, if any, the captured input and the world.
\<close>

definition on_timeout ::
  "env \<Rightarrow> task_args \<Rightarrow> bytes \<Rightarrow> world \<Rightarrow> exn option \<times> bytes \<times> world" where
  "on_timeout e a ui w =
     (case arg_prompt a of
        None \<Rightarrow> (None, ui, w)
      | Some p \<Rightarrow>
          (case arg_timeout_answer a of
             None \<Rightarrow> (None, ui, w)
           | Some timeout_answer \<Rightarrow>
               (case clear_line e w of
                  (Some x, w2) \<Rightarrow> (Some x, timeout_answer, w2)
                | (None, w2) \<Rightarrow>
                    (None, timeout_answer,
                     stdout_write
                       (''TimeoutExceeded. Timeout answer has been chosen: '' @ timeout_answer)
                       w2))))"

text \<open>Lines 379 to 383: the \<open>finally\<close> block restores the snapshot.\<close>

definition cleanup :: "locals \<Rightarrow> tattr option \<Rightarrow> world \<Rightarrow> world" where
  "cleanup l old_settings w =
     (case stdin_fd l of
        None \<Rightarrow> w
      | Some f \<Rightarrow>
          (case old_settings of
             None \<Rightarrow> w
           | Some old \<Rightarrow> (case f of Tty t \<Rightarrow> tcsetattr t old w | NotATty \<Rightarrow> w)))"

text \<open>
  Lines 244 to 392: the \<open>try\<close> statement with its handlers, and the return. When
  \<open>signal.alarm\<close> raises, no descriptor was fetched yet and \<open>finally\<close> restores nothing.
\<close>

definition run_body ::
  "env \<Rightarrow> task_args \<Rightarrow> bool option \<Rightarrow> string \<Rightarrow> string \<Rightarrow> int option \<Rightarrow> world
     \<Rightarrow> (outcome \<times> world) option" where
  "run_body e a ec prompt echo_prompt seconds w =
     (case announce a prompt echo_prompt seconds w of
        (Some x, w0) \<Rightarrow> Some (Raised x, w0)
      | (None, w0) \<Rightarrow>
          (case tty_setup e ec w0 of
             (l, old_settings, w1) \<Rightarrow>
               (case read_loop e l [] w1 of
                  None \<Rightarrow> None
                | Some (Break, ui, w2) \<Rightarrow>
                    Some (Returned (result0\<lparr>user_input := Some ui\<rparr>),
                          cleanup l old_settings w2)
                | Some (Raise AnsibleTimeoutExceeded, ui, w2) \<Rightarrow>
                    (case on_timeout e a ui w2 of
                       (Some x, ui', w3) \<Rightarrow> Some (Raised x, cleanup l old_settings w3)
                     | (None, ui', w3) \<Rightarrow>
                         Some (Returned (result0\<lparr>user_input := Some ui'\<rparr>),
                               cleanup l old_settings w3))
                | Some (Raise x, ui, w2) \<Rightarrow> Some (Raised x, cleanup l old_settings w2))))"

text \<open>Lines 224 to 231: the prompt text.\<close>

definition make_prompt :: "env \<Rightarrow> task_args \<Rightarrow> string \<Rightarrow> string" where
  "make_prompt e a echo_prompt =
     ''['' @ task_name e @ '']'' @ [CHR 0x0A] @
     (case arg_prompt a of
        Some p \<Rightarrow> p
      | None \<Rightarrow> ''Press enter to continue, Ctrl+C to interrupt'')
     @ echo_prompt @ '':''"

text \<open>Lines 233 to 242, then the rest of the call.\<close>

definition run_seconds ::
  "env \<Rightarrow> task_args \<Rightarrow> bool option \<Rightarrow> string \<Rightarrow> world \<Rightarrow> (outcome \<times> world) option" where
  "run_seconds e a ec echo_prompt w =
     (case arg_seconds a of
        None \<Rightarrow> run_body e a ec (make_prompt e a echo_prompt) echo_prompt None w
      | Some (IntValue s) \<Rightarrow>
          run_body e a ec (make_prompt e a echo_prompt) echo_prompt (Some s) w
      | Some (IntValueError m) \<Rightarrow>
          Some (Returned (result0\<lparr>failed := True,
                  msg := Some (''non-integer value given for prompt duration:'' @ [CHR 0x0A] @ m)\<rparr>),
                w)
      | Some (IntTypeError m) \<Rightarrow> Some (Raised (TypeError m), w)
      | Some (IntOverflowError m) \<Rightarrow> Some (Raised (OverflowError m), w))"

text \<open>\<open>ActionModule.run\<close>, from line 211.\<close>

definition run :: "env \<Rightarrow> task_args \<Rightarrow> world \<Rightarrow> (outcome \<times> world) option" where
  "run e a w =
     (case arg_echo a of
        None \<Rightarrow> run_seconds e a None [] w
      | Some (BoolValue b) \<Rightarrow>
          run_seconds e a (Some b) (if \<not> b then '' (output is hidden)'' else []) w
      | Some (BoolTypeError m) \<Rightarrow>
          Some (Returned (result0\<lparr>failed := True, msg := Some m\<rparr>), w))"

subsection \<open>Vocabulary for the statements\<close>

text \<open>The byte string a completed read hands to the plugin.\<close>

fun key_of :: "read_result \<Rightarrow> bytes" where
  "key_of (Byte c) = [c]"
| "key_of EOF = []"
| "key_of Blocked = []"

text \<open>\<open>feeds s n rs\<close>: from its \<open>n\<close>-th read on, the stream \<open>s\<close> answers with \<open>rs\<close>.\<close>

primrec feeds :: "(nat \<Rightarrow> read_result) \<Rightarrow> nat \<Rightarrow> read_result list \<Rightarrow> bool" where
  "feeds s n [] = True"
| "feeds s n (r # rs) = (s n = r \<and> feeds s (Suc n) rs)"

text \<open>A read after which the sub-dialog returns: a byte that lower-cases to a or c.\<close>

definition decisive :: "read_result \<Rightarrow> bool" where
  "decisive r = (r \<noteq> Blocked \<and> (lower (key_of r) = ''a'' \<or> lower (key_of r) = ''c''))"


text \<open>
  A read after which the main loop goes round again: it returned, and what it returned is
  neither the interrupt character \<open>i\<close> nor a carriage return nor a line feed.
\<close>

definition continuing :: "bytes \<Rightarrow> read_result \<Rightarrow> bool" where
  "continuing i r =
     (r \<noteq> Blocked \<and> key_of r \<noteq> i \<and> key_of r \<noteq> [CHR 0x0D] \<and> key_of r \<noteq> [CHR 0x0A])"

text \<open>
  The line editing as the specification words it: a key that matches the erase sequence
  drops the last accumulated byte (nothing when there is none), any other key is appended.
\<close>

definition spec_edit :: "erase \<Rightarrow> bytes \<Rightarrow> bytes \<Rightarrow> bytes" where
  "spec_edit b ui k = (if is_erase k b then (if ui = [] then [] else butlast ui) else ui @ k)"

text \<open>The options after conversion, when no conversion raises.\<close>

definition config_ok :: "task_args \<Rightarrow> bool" where
  "config_ok a =
     ((case arg_echo a of None \<Rightarrow> True | Some (BoolValue b) \<Rightarrow> True | Some _ \<Rightarrow> False) \<and>
      (case arg_seconds a of None \<Rightarrow> True | Some (IntValue s) \<Rightarrow> True | Some _ \<Rightarrow> False))"

definition echo_of :: "task_args \<Rightarrow> bool option" where
  "echo_of a = (case arg_echo a of Some (BoolValue b) \<Rightarrow> Some b | _ \<Rightarrow> None)"

definition seconds_of :: "task_args \<Rightarrow> int option" where
  "seconds_of a = (case arg_seconds a of Some (IntValue s) \<Rightarrow> Some s | _ \<Rightarrow> None)"

definition echo_prompt_of :: "task_args \<Rightarrow> string" where
  "echo_prompt_of a = (if echo_of a = Some False then '' (output is hidden)'' else [])"

text \<open>The number of seconds, if any, is one that \<open>signal.alarm\<close> accepts.\<close>

definition alarm_ok :: "task_args \<Rightarrow> bool" where
  "alarm_ok a = (case seconds_of a of None \<Rightarrow> True | Some s \<Rightarrow> s < 2147483648)"

text \<open>The terminal type has both capabilities that \<open>clear_line\<close> formats.\<close>

definition has_capabilities :: "env \<Rightarrow> bool" where
  "has_capabilities e = (MOVE_TO_BOL e \<noteq> None \<and> CLEAR_TO_EOL e \<noteq> None)"

text \<open>The interrupt character and the erase sequence that \<open>run\<close> resolves on terminal \<open>t\<close>.\<close>

definition intr_char :: "env \<Rightarrow> world \<Rightarrow> nat \<Rightarrow> bytes" where
  "intr_char e w t = (if termios_VINTR e then [cc_vintr (terminals w t)] else [CHR 0x03])"

definition erase_seq :: "env \<Rightarrow> world \<Rightarrow> nat \<Rightarrow> erase" where
  "erase_seq e w t =
     (if termios_VERASE e then EraseBytes [cc_verase (terminals w t)]
      else EraseList [[CHR 0x7F], [CHR 0x08]])"

definition tty_locals :: "nat \<Rightarrow> bytes \<Rightarrow> erase \<Rightarrow> bool option \<Rightarrow> locals" where
  "tty_locals t i b ec = \<lparr>stdin_fd = Some (Tty t), intr = Some i, backspace = Some b, echo = ec\<rparr>"

subsection \<open>A concrete machine\<close>

text \<open>
  One terminal in cooked mode with Ctrl+C as interrupt and DEL as erase character, no
  alarm pending, and a finite script of keystrokes after which every read answers \<open>d\<close>.
\<close>

definition cooked :: tattr where
  "cooked = \<lparr>raw_mode = False, lflag_echo = True, cc_vintr = CHR 0x03, cc_verase = CHR 0x7F\<rparr>"

definition world0 :: world where
  "world0 = \<lparr>terminals = (\<lambda>t. cooked), alarm = 0, sigalrm_handler = False, out_log = [],
     reads = 0\<rparr>"

definition script :: "read_result list \<Rightarrow> read_result \<Rightarrow> nat \<Rightarrow> read_result" where
  "script rs d n = (if n < length rs then rs ! n else d)"

definition tty_env :: "(nat \<Rightarrow> read_result) \<Rightarrow> env" where
  "tty_env ks =
     \<lparr>task_name = ''pause'', MOVE_TO_BOL = Some [CHR 0x0D],
      CLEAR_TO_EOL = Some [CHR 0x1B, CHR ''['', CHR ''K''], new_stdin = Some (Tty 0),
      sys_stdout = Tty 0, termios_VINTR = True, termios_VERASE = True, stdin_data = ks\<rparr>"

definition pipe_env :: "(nat \<Rightarrow> read_result) \<Rightarrow> env" where
  "pipe_env ks = (tty_env ks)\<lparr>new_stdin := Some NotATty\<rparr>"

text \<open>The same machine with a terminal type that has no clear-to-end-of-line capability.\<close>

definition dumb_env :: "(nat \<Rightarrow> read_result) \<Rightarrow> env" where
  "dumb_env ks = (tty_env ks)\<lparr>CLEAR_TO_EOL := None\<rparr>"

definition args0 :: task_args where
  "args0 = \<lparr>arg_echo = None, arg_prompt = None, arg_seconds = None, arg_timeout_answer = None\<rparr>"

text \<open>The world in which the read loop starts.\<close>

definition loop_entry :: "env \<Rightarrow> task_args \<Rightarrow> world \<Rightarrow> world" where
  "loop_entry e a w =
     snd (snd (tty_setup e (echo_of a)
       (snd (announce a (make_prompt e a (echo_prompt_of a)) (echo_prompt_of a)
               (seconds_of a) w))))"

section \<open>Lemmas\<close>

subsection \<open>Reads and the sub-dialog\<close>

lemma read1_data:
  "stdin_data e (reads w) \<noteq> Blocked \<Longrightarrow>
   read1 e w = Some (Inr (key_of (stdin_data e (reads w))), w\<lparr>reads := Suc (reads w)\<rparr>)"
  by (cases "stdin_data e (reads w)") (simp_all add: read1_def)

lemma read1_blocked_disarmed:
  "stdin_data e (reads w) = Blocked \<Longrightarrow> alarm w = 0 \<Longrightarrow> read1 e w = None"
  by (simp add: read1_def)

lemma c_or_a_ignore:
  assumes "stdin_data e (reads w) \<noteq> Blocked" "\<not> decisive (stdin_data e (reads w))"
  shows "c_or_a e w = c_or_a e (w\<lparr>reads := Suc (reads w)\<rparr>)"
  using assms by (subst c_or_a.simps) (simp add: read1_data decisive_def)

lemma c_or_a_Some_decisive:
  assumes "c_or_a e w = Some y"
  shows "alarm w = 0 \<longrightarrow> (\<exists>n. decisive (stdin_data e (reads w + n)) \<and>
      (\<forall>m<n. stdin_data e (reads w + m) \<noteq> Blocked))"
  using assms
proof (induction rule: c_or_a.raw_induct[rotated 1, consumes 1])
  case (1 f e w y)
  show ?case
  proof
    assume al: "alarm w = 0"
    show "\<exists>n. decisive (stdin_data e (reads w + n)) \<and> (\<forall>m<n. stdin_data e (reads w + m) \<noteq> Blocked)"
    proof (cases "stdin_data e (reads w) = Blocked")
      case True
      with al 1(2) show ?thesis by (simp add: read1_blocked_disarmed)
    next
      case nb: False
      show ?thesis
      proof (cases "decisive (stdin_data e (reads w))")
        case True
        then have "decisive (stdin_data e (reads w + 0)) \<and> (\<forall>m<0. stdin_data e (reads w + m) \<noteq> Blocked)" by simp
        then show ?thesis by blast
      next
        case False
        with nb 1(2) have "f e (w\<lparr>reads := Suc (reads w)\<rparr>) = Some y"
          by (simp add: read1_data decisive_def)
        from 1(1)[OF this] al obtain n where
          n: "decisive (stdin_data e (Suc (reads w) + n))" "\<forall>m<n. stdin_data e (Suc (reads w) + m) \<noteq> Blocked"
          by auto
        have "\<forall>m<Suc n. stdin_data e (reads w + m) \<noteq> Blocked"
        proof (intro allI impI)
          fix m assume "m < Suc n"
          show "stdin_data e (reads w + m) \<noteq> Blocked"
          proof (cases m)
            case 0 with nb show ?thesis by simp
          next
            case (Suc k)
            with \<open>m < Suc n\<close> n(2) show ?thesis by simp
          qed
        qed
        moreover from n(1) have "decisive (stdin_data e (reads w + Suc n))" by simp
        ultimately show ?thesis by blast
      qed
    qed
  qed
qed

lemma c_or_a_decisive_Some:
  "decisive (stdin_data e (reads w + n)) \<Longrightarrow> \<forall>m<n. stdin_data e (reads w + m) \<noteq> Blocked \<Longrightarrow>
   \<exists>y. c_or_a e w = Some y"
proof (induction n arbitrary: w)
  case 0
  then show ?case
    by (subst c_or_a.simps) (auto simp add: read1_data decisive_def)
next
  case (Suc n)
  from Suc.prems(2) have nb: "stdin_data e (reads w) \<noteq> Blocked" by force
  show ?case
  proof (cases "decisive (stdin_data e (reads w))")
    case True
    with nb show ?thesis by (subst c_or_a.simps) (auto simp add: read1_data decisive_def)
  next
    case False
    let ?w = "w\<lparr>reads := Suc (reads w)\<rparr>"
    have "decisive (stdin_data e (reads ?w + n))" using Suc.prems(1) by simp
    moreover have "\<forall>m<n. stdin_data e (reads ?w + m) \<noteq> Blocked"
    proof (intro allI impI)
      fix m assume "m < n"
      then have "Suc m < Suc n" by simp
      with Suc.prems(2) have "stdin_data e (reads w + Suc m) \<noteq> Blocked" by blast
      then show "stdin_data e (reads ?w + m) \<noteq> Blocked" by simp
    qed
    ultimately have "\<exists>y. c_or_a e ?w = Some y" by (rule Suc.IH)
    with c_or_a_ignore[OF nb False] show ?thesis by simp
  qed
qed

subsection \<open>The read loop on a terminal\<close>

lemma world_ops [simp]:
  "terminals (display s w) = terminals w" "alarm (display s w) = alarm w"
  "sigalrm_handler (display s w) = sigalrm_handler w" "reads (display s w) = reads w"
  "terminals (warning s w) = terminals w" "alarm (warning s w) = alarm w"
  "sigalrm_handler (warning s w) = sigalrm_handler w" "reads (warning s w) = reads w"
  "terminals (stdout_write b w) = terminals w" "alarm (stdout_write b w) = alarm w"
  "sigalrm_handler (stdout_write b w) = sigalrm_handler w" "reads (stdout_write b w) = reads w"
  "terminals (stdout_flush w) = terminals w" "alarm (stdout_flush w) = alarm w"
  "sigalrm_handler (stdout_flush w) = sigalrm_handler w" "reads (stdout_flush w) = reads w"
  by (simp_all add: display_def warning_def stdout_write_def stdout_flush_def)

lemma clear_line_sel [simp]:
  "terminals (snd (clear_line e w)) = terminals w" "alarm (snd (clear_line e w)) = alarm w"
  "sigalrm_handler (snd (clear_line e w)) = sigalrm_handler w"
  "reads (snd (clear_line e w)) = reads w"
  by (simp_all add: clear_line_def split: sum.splits)

lemma clear_line_ok:
  "has_capabilities e \<Longrightarrow> fst (clear_line e w) = None"
  by (auto simp add: has_capabilities_def clear_line_def escape_seq_def split: sum.splits)

lemma clear_line_case:
  "has_capabilities e \<Longrightarrow> case_prod f (clear_line e w) = f None (snd (clear_line e w))"
  by (simp add: case_prod_unfold clear_line_ok)


lemma terminal_ops [simp]:
  "alarm (setraw t w) = alarm w" "sigalrm_handler (setraw t w) = sigalrm_handler w"
  "reads (setraw t w) = reads w" "out_log (setraw t w) = out_log w"
  "alarm (set_echo t w) = alarm w" "sigalrm_handler (set_echo t w) = sigalrm_handler w"
  "reads (set_echo t w) = reads w" "out_log (set_echo t w) = out_log w"
  "alarm (tcsetattr t x w) = alarm w" "sigalrm_handler (tcsetattr t x w) = sigalrm_handler w"
  "reads (tcsetattr t x w) = reads w" "out_log (tcsetattr t x w) = out_log w"
  "terminals (tcsetattr t x w) t = x"
  by (simp_all add: setraw_def set_echo_def tcsetattr_def)

lemma feeds_append:
  "feeds s n (xs @ ys) = (feeds s n xs \<and> feeds s (n + length xs) ys)"
  by (induction xs arbitrary: n) auto

lemma tty_locals_sel [simp]:
  "stdin_fd (tty_locals t i b ec) = Some (Tty t)" "intr (tty_locals t i b ec) = Some i"
  "backspace (tty_locals t i b ec) = Some b" "echo (tty_locals t i b ec) = ec"
  by (simp_all add: tty_locals_def)

lemma read_loop_continue:
  assumes "has_capabilities e" "stdin_data e (reads w) = r" "continuing i r"
  shows "\<exists>w'. read_loop e (tty_locals t i b ec) ui w =
              read_loop e (tty_locals t i b ec) (spec_edit b ui (key_of r)) w'
          \<and> reads w' = Suc (reads w) \<and> alarm w' = alarm w
          \<and> sigalrm_handler w' = sigalrm_handler w \<and> terminals w' = terminals w"
proof -
  from assms have nb: "stdin_data e (reads w) \<noteq> Blocked" by (auto simp: continuing_def)
  let ?w1 = "w\<lparr>reads := Suc (reads w)\<rparr>"
  let ?w2 = "snd (clear_line e ?w1)"
  show ?thesis
  proof (cases "is_erase (key_of r) b")
    case True
    let ?w' = "stdout_flush (if ec = Some True then stdout_write (butlast ui) ?w2 else ?w2)"
    have "read_loop e (tty_locals t i b ec) ui w = read_loop e (tty_locals t i b ec) (butlast ui) ?w'"
      using assms nb True
      by (subst read_loop.simps)
         (simp add: read1_data continuing_def isatty_def clear_line_case)
    moreover have "butlast ui = spec_edit b ui (key_of r)" using True by (simp add: spec_edit_def)
    ultimately show ?thesis by (intro exI[of _ ?w']) simp
  next
    case False
    have "read_loop e (tty_locals t i b ec) ui w = read_loop e (tty_locals t i b ec) (ui @ key_of r) ?w1"
      using assms nb False
      by (subst read_loop.simps) (simp add: read1_data continuing_def isatty_def)
    moreover have "ui @ key_of r = spec_edit b ui (key_of r)" using False by (simp add: spec_edit_def)
    ultimately show ?thesis by (intro exI[of _ ?w1]) simp
  qed
qed

lemma read_loop_typed:
  assumes "has_capabilities e" "feeds (stdin_data e) (reads w) rs" "list_all (continuing i) rs"
  shows "\<exists>w'. read_loop e (tty_locals t i b ec) ui w =
              read_loop e (tty_locals t i b ec) (foldl (spec_edit b) ui (map key_of rs)) w'
          \<and> reads w' = reads w + length rs \<and> alarm w' = alarm w
          \<and> sigalrm_handler w' = sigalrm_handler w \<and> terminals w' = terminals w"
  using assms(2,3)
proof (induction rs arbitrary: ui w)
  case Nil
  show ?case by (intro exI[of _ w]) simp
next
  case (Cons r rs)
  from Cons.prems have r: "stdin_data e (reads w) = r" "continuing i r" by simp_all
  from read_loop_continue[OF assms(1) r, where t=t and b=b and ec=ec and ui=ui] obtain w1 where
    w1: "read_loop e (tty_locals t i b ec) ui w =
           read_loop e (tty_locals t i b ec) (spec_edit b ui (key_of r)) w1"
        "reads w1 = Suc (reads w)" "alarm w1 = alarm w"
        "sigalrm_handler w1 = sigalrm_handler w" "terminals w1 = terminals w"
    by (elim exE conjE)
  from Cons.prems w1(2) have "feeds (stdin_data e) (reads w1) rs" "list_all (continuing i) rs"
    by simp_all
  from Cons.IH[OF this, where ui="spec_edit b ui (key_of r)"] obtain w2 where
    w2: "read_loop e (tty_locals t i b ec) (spec_edit b ui (key_of r)) w1 =
           read_loop e (tty_locals t i b ec)
             (foldl (spec_edit b) (spec_edit b ui (key_of r)) (map key_of rs)) w2"
        "reads w2 = reads w1 + length rs" "alarm w2 = alarm w1"
        "sigalrm_handler w2 = sigalrm_handler w1" "terminals w2 = terminals w1"
    by (elim exE conjE)
  show ?case using w1 w2 by (intro exI[of _ w2]) simp
qed

lemma read_loop_newline:
  assumes "has_capabilities e"
    and "stdin_data e (reads w) = Byte c" "c = CHR 0x0D \<or> c = CHR 0x0A" "[c] \<noteq> i"
  shows "read_loop e (tty_locals t i b ec) ui w =
           Some (Break, ui, snd (clear_line e (w\<lparr>reads := Suc (reads w)\<rparr>)))"
  using assms by (subst read_loop.simps) (auto simp add: read1_def isatty_def clear_line_case)

lemma read_loop_timeout:
  assumes "stdin_data e (reads w) = Blocked" "0 < alarm w" "sigalrm_handler w" "stdin_fd l = Some f"
  shows "read_loop e l ui w = Some (Raise AnsibleTimeoutExceeded, ui, w\<lparr>alarm := 0\<rparr>)"
  using assms by (subst read_loop.simps) (simp add: read1_def)

lemma read_loop_intr:
  assumes "has_capabilities e" and "stdin_data e (reads w) = Byte c" "[c] = i"
  shows "read_loop e (tty_locals t i b ec) ui w =
           on_keyboard_interrupt e ui (snd (clear_line e (w\<lparr>reads := Suc (reads w)\<rparr>)))"
  using assms by (subst read_loop.simps) (auto simp add: read1_def clear_line_case)









lemma loop_until_interrupt:
  assumes "has_capabilities e"
    and "feeds (stdin_data e) (reads w) (typed @ Byte c # rest)"
    and "list_all (continuing i) typed" "[c] = i"
  shows "\<exists>wk. read_loop e (tty_locals t i b ec) ui w =
               on_keyboard_interrupt e (foldl (spec_edit b) ui (map key_of typed)) wk
           \<and> reads wk = Suc (reads w + length typed)"
proof -
  from assms(2) have f: "feeds (stdin_data e) (reads w) typed"
    and c: "stdin_data e (reads w + length typed) = Byte c"
    by (simp_all add: feeds_append)
  from read_loop_typed[OF assms(1) f assms(3), where t=t and b=b and ec=ec and ui=ui]
  obtain w1 where
    w1: "read_loop e (tty_locals t i b ec) ui w =
           read_loop e (tty_locals t i b ec) (foldl (spec_edit b) ui (map key_of typed)) w1"
        "reads w1 = reads w + length typed"
    by (elim exE conjE)
  from c w1(2) have "stdin_data e (reads w1) = Byte c" by simp
  from read_loop_intr[OF assms(1) this assms(4)] w1
  have "read_loop e (tty_locals t i b ec) ui w =
          on_keyboard_interrupt e (foldl (spec_edit b) ui (map key_of typed))
            (snd (clear_line e (w1\<lparr>reads := Suc (reads w1)\<rparr>)))"
    by (simp only:)
  moreover have "reads (snd (clear_line e (w1\<lparr>reads := Suc (reads w1)\<rparr>))) = Suc (reads w + length typed)"
    using w1(2) by simp
  ultimately show ?thesis
    by (intro exI[of _ "snd (clear_line e (w1\<lparr>reads := Suc (reads w1)\<rparr>))"] conjI)
qed



subsection \<open>The whole call\<close>

lemma run_config_ok:
  "config_ok a \<Longrightarrow>
   run e a w = run_body e a (echo_of a) (make_prompt e a (echo_prompt_of a)) (echo_prompt_of a)
                 (seconds_of a) w"
  by (auto simp add: run_def run_seconds_def config_ok_def echo_of_def seconds_of_def
        echo_prompt_of_def split: option.splits bool_conv.splits int_conv.splits)

lemma run_config_bad:
  "\<not> config_ok a \<Longrightarrow> run e a w = Some (oc, w') \<Longrightarrow> w' = w"
  by (auto simp add: run_def run_seconds_def config_ok_def
        split: option.splits bool_conv.splits int_conv.splits)

lemma announce_sel [simp]:
  "terminals (snd (announce a p ep s w)) = terminals w"
  "reads (snd (announce a p ep s w)) = reads w"
  by (simp_all add: announce_def Let_def display_def split: option.splits)

lemma announce_armed:
  assumes "case s of None \<Rightarrow> True | Some n \<Rightarrow> n < 2147483648"
  shows "fst (announce a p ep s w) = None"
    and "alarm (snd (announce a p ep s w)) =
           (case s of None \<Rightarrow> alarm w | Some n \<Rightarrow> nat (if n < 1 then 1 else n))"
    and "sigalrm_handler (snd (announce a p ep s w)) =
           (case s of None \<Rightarrow> sigalrm_handler w | Some n \<Rightarrow> True)"
  using assms by (auto simp add: announce_def Let_def display_def split: option.splits)

lemma announce_ok:
  "alarm_ok a \<Longrightarrow> fst (announce a p ep (seconds_of a) w) = None"
  by (rule announce_armed) (simp add: alarm_ok_def)

lemma run_announce_raises:
  assumes "config_ok a"
    and "fst (announce a (make_prompt e a (echo_prompt_of a)) (echo_prompt_of a) (seconds_of a) w)
           = Some x"
  shows "run e a w =
     Some (Raised x,
       snd (announce a (make_prompt e a (echo_prompt_of a)) (echo_prompt_of a) (seconds_of a) w))"
  unfolding run_config_ok[OF assms(1)] run_body_def using assms(2)
  by (simp add: case_prod_unfold)

lemma tty_setup_tty:
  assumes "new_stdin e = Some (Tty t)"
  shows "fst (tty_setup e ec w) = tty_locals t (intr_char e w t) (erase_seq e w t) ec"
    and "fst (snd (tty_setup e ec w)) = Some (terminals w t)"
    and "reads (snd (snd (tty_setup e ec w))) = reads w"
    and "alarm (snd (snd (tty_setup e ec w))) = alarm w"
    and "sigalrm_handler (snd (snd (tty_setup e ec w))) = sigalrm_handler w"
  using assms
  by (simp_all add: tty_setup_def Let_def tty_locals_def intr_char_def erase_seq_def
        split: fd.splits)

lemma loop_entry_sel:
  assumes "new_stdin e = Some (Tty t)"
  shows "reads (loop_entry e a w) = reads w"
    and "alarm_ok a \<Longrightarrow> alarm (loop_entry e a w) =
           (case seconds_of a of None \<Rightarrow> alarm w | Some n \<Rightarrow> nat (if n < 1 then 1 else n))"
    and "alarm_ok a \<Longrightarrow> sigalrm_handler (loop_entry e a w) =
           (case seconds_of a of None \<Rightarrow> sigalrm_handler w | Some n \<Rightarrow> True)"
proof -
  show "reads (loop_entry e a w) = reads w"
    using assms by (simp add: loop_entry_def tty_setup_tty)
  assume "alarm_ok a"
  then have ok: "case seconds_of a of None \<Rightarrow> True | Some n \<Rightarrow> n < 2147483648"
    by (simp add: alarm_ok_def)
  show "alarm (loop_entry e a w) =
           (case seconds_of a of None \<Rightarrow> alarm w | Some n \<Rightarrow> nat (if n < 1 then 1 else n))"
    using assms announce_armed(2)[OF ok] by (simp add: loop_entry_def tty_setup_tty)
  show "sigalrm_handler (loop_entry e a w) =
           (case seconds_of a of None \<Rightarrow> sigalrm_handler w | Some n \<Rightarrow> True)"
    using assms announce_armed(3)[OF ok] by (simp add: loop_entry_def tty_setup_tty)
qed

lemma run_tty:
  assumes "config_ok a"
    and "fst (announce a (make_prompt e a (echo_prompt_of a)) (echo_prompt_of a) (seconds_of a) w)
           = None"
    and "new_stdin e = Some (Tty t)"
  shows "run e a w =
     (case read_loop e (tty_locals t (intr_char e w t) (erase_seq e w t) (echo_of a)) []
             (loop_entry e a w) of
        None \<Rightarrow> None
      | Some (Break, ui, w2) \<Rightarrow>
          Some (Returned (result0\<lparr>user_input := Some ui\<rparr>), tcsetattr t (terminals w t) w2)
      | Some (Raise AnsibleTimeoutExceeded, ui, w2) \<Rightarrow>
          (case on_timeout e a ui w2 of
             (Some x, ui', w3) \<Rightarrow> Some (Raised x, tcsetattr t (terminals w t) w3)
           | (None, ui', w3) \<Rightarrow>
               Some (Returned (result0\<lparr>user_input := Some ui'\<rparr>),
                     tcsetattr t (terminals w t) w3))
      | Some (Raise x, ui, w2) \<Rightarrow> Some (Raised x, tcsetattr t (terminals w t) w2))"
proof -
  define w0 where
    "w0 = snd (announce a (make_prompt e a (echo_prompt_of a)) (echo_prompt_of a)
                 (seconds_of a) w)"
  have a: "announce a (make_prompt e a (echo_prompt_of a)) (echo_prompt_of a) (seconds_of a) w
            = (None, w0)"
    using assms(2) by (simp add: prod_eq_iff w0_def)
  have s: "tty_setup e (echo_of a) w0 =
             (tty_locals t (intr_char e w t) (erase_seq e w t) (echo_of a),
              Some (terminals w t), loop_entry e a w)"
    using tty_setup_tty(1,2)[OF assms(3), of "echo_of a" w0]
    by (simp add: loop_entry_def prod_eq_iff intr_char_def erase_seq_def w0_def)
  show ?thesis
    unfolding run_config_ok[OF assms(1)] run_body_def a
    by (simp add: s cleanup_def
          split: option.splits prod.splits loop_exit.splits exn.splits)
qed

lemma on_timeout_sel [simp]:
  "terminals (snd (snd (on_timeout e a ui w))) = terminals w"
  by (simp add: on_timeout_def case_prod_unfold stdout_write_def split: option.splits)

lemma on_timeout_answer:
  assumes "has_capabilities e" "arg_prompt a = Some p" "arg_timeout_answer a = Some ans"
  shows "on_timeout e a ui w =
           (None, ans,
            stdout_write (''TimeoutExceeded. Timeout answer has been chosen: '' @ ans)
              (snd (clear_line e w)))"
  using assms by (simp add: on_timeout_def clear_line_case)

lemma seconds_type_error_propagates:
  "arg_echo a = None \<Longrightarrow> arg_seconds a = Some (IntTypeError m) \<Longrightarrow>
   run e a w = Some (Raised (TypeError m), w)"
  by (simp add: run_def run_seconds_def)



subsection \<open>What holds when the alarm is accepted and both capabilities exist\<close>



lemma line_editing_with_capabilities:
  assumes "config_ok a" and "alarm_ok a" and "has_capabilities e"
    and "new_stdin e = Some (Tty t)"
    and "feeds (stdin_data e) (reads w) (map Byte typed @ [Byte nl])"
    and "list_all (continuing (intr_char e w t)) (map Byte typed)"
    and "nl = CHR 0x0D \<or> nl = CHR 0x0A"
    and "[nl] \<noteq> intr_char e w t"
  shows "\<exists>w'. run e a w =
            Some (Returned (result0\<lparr>user_input :=
                    Some (foldl (spec_edit (erase_seq e w t)) [] (map (\<lambda>c. [c]) typed))\<rparr>), w')"
proof -
  let ?l = "tty_locals t (intr_char e w t) (erase_seq e w t) (echo_of a)"
  let ?ui = "foldl (spec_edit (erase_seq e w t)) [] (map key_of (map Byte typed))"
  have r: "reads (loop_entry e a w) = reads w" using assms(4) by (rule loop_entry_sel)
  from assms(5) r have f: "feeds (stdin_data e) (reads (loop_entry e a w)) (map Byte typed)"
    and n: "stdin_data e (reads (loop_entry e a w) + length typed) = Byte nl"
    by (simp_all add: feeds_append)
  from read_loop_typed[OF assms(3) f assms(6), where t=t and b="erase_seq e w t"
      and ec="echo_of a" and ui="[]"]
  obtain w1 where w1: "read_loop e ?l [] (loop_entry e a w) = read_loop e ?l ?ui w1"
      "reads w1 = reads (loop_entry e a w) + length typed"
    by (elim exE conjE) simp
  from n w1(2) have "stdin_data e (reads w1) = Byte nl" by simp
  from read_loop_newline[OF assms(3) this assms(7,8)] w1(1)
  have "read_loop e ?l [] (loop_entry e a w) =
          Some (Break, ?ui, snd (clear_line e (w1\<lparr>reads := Suc (reads w1)\<rparr>)))"
    by (simp only:)
  then have "run e a w = Some (Returned (result0\<lparr>user_input := Some ?ui\<rparr>),
      tcsetattr t (terminals w t) (snd (clear_line e (w1\<lparr>reads := Suc (reads w1)\<rparr>))))"
    unfolding run_tty[OF assms(1) announce_ok[OF assms(2)] assms(4)] by simp
  then show ?thesis by (simp add: comp_def)
qed

lemma timeout_answer_with_capabilities:
  assumes "arg_prompt a = Some p" and "arg_timeout_answer a = Some ans"
    and "arg_seconds a = Some (IntValue s)" and "s < 2147483648"
    and "config_ok a" and "has_capabilities e"
    and "new_stdin e = Some (Tty t)"
    and "feeds (stdin_data e) (reads w) (typed @ [Blocked])"
    and "list_all (continuing (intr_char e w t)) typed"
  shows "\<exists>w'. run e a w = Some (Returned (result0\<lparr>user_input := Some ans\<rparr>), w')
           \<and> last (out_log w') =
               Write (''TimeoutExceeded. Timeout answer has been chosen: '' @ ans)"
proof -
  let ?l = "tty_locals t (intr_char e w t) (erase_seq e w t) (echo_of a)"
  let ?ui = "foldl (spec_edit (erase_seq e w t)) [] (map key_of typed)"
  from assms(3) have sec: "seconds_of a = Some s" by (simp add: seconds_of_def)
  with assms(4) have ok: "alarm_ok a" by (simp add: alarm_ok_def)
  note le = loop_entry_sel(1)[OF assms(7), of a w] loop_entry_sel(2,3)[OF assms(7) ok, of w]
  from assms(8) le(1) have f: "feeds (stdin_data e) (reads (loop_entry e a w)) typed"
    and b: "stdin_data e (reads (loop_entry e a w) + length typed) = Blocked"
    by (simp_all add: feeds_append)
  from read_loop_typed[OF assms(6) f assms(9), where t=t and b="erase_seq e w t"
      and ec="echo_of a" and ui="[]"]
  obtain w1 where w1: "read_loop e ?l [] (loop_entry e a w) = read_loop e ?l ?ui w1"
      "reads w1 = reads (loop_entry e a w) + length typed"
      "alarm w1 = alarm (loop_entry e a w)"
      "sigalrm_handler w1 = sigalrm_handler (loop_entry e a w)"
    by (elim exE conjE)
  from b w1(2) have "stdin_data e (reads w1) = Blocked" by simp
  moreover have "0 < alarm w1" "sigalrm_handler w1" using w1(3,4) le(2,3) sec by simp_all
  moreover have "stdin_fd ?l = Some (Tty t)" by simp
  ultimately have "read_loop e ?l ?ui w1 = Some (Raise AnsibleTimeoutExceeded, ?ui, w1\<lparr>alarm := 0\<rparr>)"
    by (rule read_loop_timeout)
  with w1(1) have "read_loop e ?l [] (loop_entry e a w) =
      Some (Raise AnsibleTimeoutExceeded, ?ui, w1\<lparr>alarm := 0\<rparr>)" by (simp only:)
  then have "run e a w = Some (Returned (result0\<lparr>user_input := Some ans\<rparr>),
       tcsetattr t (terminals w t)
         (stdout_write (''TimeoutExceeded. Timeout answer has been chosen: '' @ ans)
            (snd (clear_line e (w1\<lparr>alarm := 0\<rparr>)))))"
    unfolding run_tty[OF assms(5) announce_ok[OF ok] assms(7)]
    by (simp add: on_timeout_answer[OF assms(6,1,2)])
  then show ?thesis by (simp add: stdout_write_def)
qed

lemma config_error_before_mutation:
  "(arg_echo a = Some (BoolTypeError m) \<longrightarrow>
      run e a w = Some (Returned (result0\<lparr>failed := True, msg := Some m\<rparr>), w)) \<and>
   ((\<forall>m'. arg_echo a \<noteq> Some (BoolTypeError m')) \<and> arg_seconds a = Some (IntValueError m) \<longrightarrow>
      run e a w =
        Some (Returned (result0\<lparr>failed := True,
                msg := Some (''non-integer value given for prompt duration:'' @ [CHR 0x0A] @ m)\<rparr>),
              w)) \<and>
   (\<not> config_ok a \<longrightarrow> (\<exists>oc. run e a w = Some (oc, w)))"
  by (auto simp add: run_def run_seconds_def config_ok_def result0_def
        split: option.splits bool_conv.splits int_conv.splits)

lemmas machine_defs =
  tty_env_def pipe_env_def dumb_env_def world0_def cooked_def script_def args0_def

lemmas run_eval =
  run_def run_seconds_def run_body_def announce_def tty_setup_def make_prompt_def
  on_timeout_def cleanup_def on_keyboard_interrupt_def read1_def display_def warning_def
  stdout_write_def stdout_flush_def clear_line_def escape_seq_def format_error_def setraw_def
  set_echo_def
  tcsetattr_def isatty_def lower_def lower_char_def str_int_def loop_entry_def echo_of_def
  seconds_of_def echo_prompt_of_def read_loop.simps c_or_a.simps

section \<open>The claims\<close>

subsection \<open>Restoration of the terminal\<close>

text \<open>
  C1. Whenever \<open>run\<close> is called with standard input on a terminal \<open>t\<close> (the only case in
  which a snapshot of the attributes is taken) and the call comes back, by returning a
  result or by raising, on whichever path (newline, timeout, continue or abort after an
  interrupt, any exception), the attributes of \<open>t\<close> are exactly those found before the call.
\<close>

theorem run_restores_terminal:
  assumes "new_stdin e = Some (Tty t)" and "run e a w = Some (oc, w')"
  shows "terminals w' t = terminals w t"
proof (cases "config_ok a")
  case False
  from run_config_bad[OF False assms(2)] show ?thesis by simp
next
  case True
  let ?an = "announce a (make_prompt e a (echo_prompt_of a)) (echo_prompt_of a) (seconds_of a) w"
  show ?thesis
  proof (cases "fst ?an")
    case (Some x)
    from assms(2) show ?thesis unfolding run_announce_raises[OF True Some] by auto
  next
    case None
    from assms(2) show ?thesis
      unfolding run_tty[OF True None assms(1)]
      by (auto split: option.splits prod.splits loop_exit.splits exn.splits)
  qed
qed

text \<open>A call that ends in the abort exception, on a terminal that was in cooked mode.\<close>

theorem run_restores_terminal_witness:
  "new_stdin (tty_env (script [Byte CHR ''x'', Byte (CHR 0x03), Byte CHR ''a''] Blocked)) = Some (Tty 0) \<and>
   (\<exists>w'. run (tty_env (script [Byte CHR ''x'', Byte (CHR 0x03), Byte CHR ''a''] Blocked)) args0 world0 =
            Some (Raised (AnsibleError ''user requested abort!''), w') \<and>
         terminals w' 0 = cooked)"
proof -
  let ?e = "tty_env (script [Byte CHR ''x'', Byte (CHR 0x03), Byte CHR ''a''] Blocked)"
  have t: "new_stdin ?e = Some (Tty 0)" by (simp add: tty_env_def)
  have "\<exists>w'. run ?e args0 world0 = Some (Raised (AnsibleError ''user requested abort!''), w')"
    by (simp add: run_eval machine_defs)
  then obtain w' where r: "run ?e args0 world0 = Some (Raised (AnsibleError ''user requested abort!''), w')"
    by blast
  from run_restores_terminal[OF t r] have "terminals w' 0 = cooked" by (simp add: world0_def)
  with t r show ?thesis by blast
qed

subsection \<open>The interrupt sub-dialog\<close>





text \<open>
  C10. With no alarm armed, \<open>_c_or_a\<close> returns if and only if some read it reaches
  yields a byte that lower-cases to a or c; on a stream at end of file for ever it never
  returns; and as \<open>run\<close> disarms the alarm before the sub-dialog, a call that enters the
  sub-dialog on a terminal and then reads only end of file never returns, even with
  \<open>seconds\<close> configured.
\<close>

theorem c_or_a_termination:
  "(alarm w = 0 \<longrightarrow>
      ((\<exists>y. c_or_a e w = Some y) \<longleftrightarrow>
       (\<exists>n. decisive (stdin_data e (reads w + n)) \<and>
            (\<forall>m<n. stdin_data e (reads w + m) \<noteq> Blocked)))) \<and>
   (alarm w = 0 \<and> (\<forall>n. stdin_data e (reads w + n) = EOF) \<longrightarrow> c_or_a e w = None) \<and>
   (config_ok a \<and> arg_seconds a = Some (IntValue s) \<and> s < 2147483648 \<and>
    has_capabilities e \<and> new_stdin e = Some (Tty t) \<and>
    feeds (stdin_data e) (reads w) (typed @ [Byte c]) \<and>
    list_all (continuing (intr_char e w t)) typed \<and> [c] = intr_char e w t \<and>
    (\<forall>n. stdin_data e (Suc (reads w + length typed) + n) = EOF) \<longrightarrow>
      run e a w = None)"
proof (intro conjI impI)
  assume "alarm w = 0"
  then show "(\<exists>y. c_or_a e w = Some y) \<longleftrightarrow>
       (\<exists>n. decisive (stdin_data e (reads w + n)) \<and>
            (\<forall>m<n. stdin_data e (reads w + m) \<noteq> Blocked))"
    using c_or_a_Some_decisive[of e w] c_or_a_decisive_Some[of e w] by blast
next
  assume h: "alarm w = 0 \<and> (\<forall>n. stdin_data e (reads w + n) = EOF)"
  show "c_or_a e w = None"
  proof (rule ccontr)
    assume "c_or_a e w \<noteq> None"
    then obtain y where "c_or_a e w = Some y" by auto
    from c_or_a_Some_decisive[OF this] h obtain n where "decisive (stdin_data e (reads w + n))"
      by auto
    with h show False by (simp add: decisive_def lower_def)
  qed
next
  assume h: "config_ok a \<and> arg_seconds a = Some (IntValue s) \<and> s < 2147483648 \<and>
    has_capabilities e \<and> new_stdin e = Some (Tty t) \<and>
    feeds (stdin_data e) (reads w) (typed @ [Byte c]) \<and>
    list_all (continuing (intr_char e w t)) typed \<and> [c] = intr_char e w t \<and>
    (\<forall>n. stdin_data e (Suc (reads w + length typed) + n) = EOF)"
  let ?l = "tty_locals t (intr_char e w t) (erase_seq e w t) (echo_of a)"
  let ?ui = "foldl (spec_edit (erase_seq e w t)) [] (map key_of typed)"
  from h have tty: "new_stdin e = Some (Tty t)" and ok: "config_ok a"
    and caps: "has_capabilities e" by simp_all
  from h have al: "alarm_ok a" by (simp add: alarm_ok_def seconds_of_def)
  have r: "reads (loop_entry e a w) = reads w" using tty by (rule loop_entry_sel)
  from h r have f: "feeds (stdin_data e) (reads (loop_entry e a w)) (typed @ Byte c # [])"
    and ct: "list_all (continuing (intr_char e w t)) typed" and ci: "[c] = intr_char e w t"
    by simp_all
  from loop_until_interrupt[OF caps f ct ci, where t=t and b="erase_seq e w t"
      and ec="echo_of a" and ui="[]"]
  obtain wk where wk: "read_loop e ?l [] (loop_entry e a w) = on_keyboard_interrupt e ?ui wk"
     "reads wk = Suc (reads w + length typed)"
    using r by (elim exE conjE) simp
  let ?w0 = "display (''Press 'C' to continue the play or 'A' to abort '' @ [CHR 0x0D])
               (wk\<lparr>alarm := 0\<rparr>)"
  have "c_or_a e ?w0 = None"
  proof (rule ccontr)
    assume "c_or_a e ?w0 \<noteq> None"
    then obtain y where "c_or_a e ?w0 = Some y" by auto
    from c_or_a_Some_decisive[OF this] obtain n where "decisive (stdin_data e (reads ?w0 + n))"
      by auto
    moreover from h wk(2) have "stdin_data e (reads ?w0 + n) = EOF" by simp
    ultimately show False by (simp add: decisive_def lower_def)
  qed
  then have "on_keyboard_interrupt e ?ui wk = None" by (simp add: on_keyboard_interrupt_def)
  with wk(1) show "run e a w = None"
    unfolding run_tty[OF ok announce_ok[OF al] tty] by simp
qed

text \<open>An interrupt followed by end of file for ever; end of file alone; and x, end of file, C.\<close>

theorem c_or_a_termination_witness:
  "run (tty_env (script [Byte CHR ''x'', Byte (CHR 0x03)] EOF))
       (args0\<lparr>arg_seconds := Some (IntValue 5)\<rparr>) world0 = None \<and>
   c_or_a (tty_env (script [] EOF)) world0 = None \<and>
   (\<exists>y. c_or_a (tty_env (script [Byte CHR ''x'', EOF, Byte CHR ''C''] Blocked)) world0 = Some y)"
proof -
  let ?e = "tty_env (script [Byte CHR ''x'', Byte (CHR 0x03)] EOF)"
  let ?a = "args0\<lparr>arg_seconds := Some (IntValue 5)\<rparr>"
  let ?e2 = "tty_env (script [] EOF)"
  let ?e3 = "tty_env (script [Byte CHR ''x'', EOF, Byte CHR ''C''] Blocked)"
  have h1: "config_ok ?a \<and> arg_seconds ?a = Some (IntValue 5) \<and> (5::int) < 2147483648 \<and>
    has_capabilities ?e \<and> new_stdin ?e = Some (Tty 0) \<and>
    feeds (stdin_data ?e) (reads world0) ([Byte CHR ''x''] @ [Byte (CHR 0x03)]) \<and>
    list_all (continuing (intr_char ?e world0 0)) [Byte CHR ''x''] \<and>
    [CHR 0x03] = intr_char ?e world0 0 \<and>
    (\<forall>n. stdin_data ?e (Suc (reads world0 + length [Byte CHR ''x'']) + n) = EOF)"
    by (simp add: config_ok_def has_capabilities_def continuing_def intr_char_def machine_defs)
  have h2: "alarm world0 = 0 \<and> (\<forall>n. stdin_data ?e2 (reads world0 + n) = EOF)"
    by (simp add: machine_defs)
  have h3: "alarm world0 = 0" by (simp add: world0_def)
  have h4: "decisive (stdin_data ?e3 (reads world0 + 2)) \<and>
            (\<forall>m<2. stdin_data ?e3 (reads world0 + m) \<noteq> Blocked)"
    by (simp add: decisive_def lower_def lower_char_def machine_defs less_Suc_eq numeral_2_eq_2)
  from c_or_a_termination[of world0 ?e ?a 5 0 "[Byte CHR ''x'']" "CHR 0x03"] h1
  have "run ?e ?a world0 = None" by blast
  moreover from c_or_a_termination[of world0 ?e2 ?a 5 0 "[]" "CHR 0x03"] h2
  have "c_or_a ?e2 world0 = None" by blast
  moreover from c_or_a_termination[of world0 ?e3 ?a 5 0 "[]" "CHR 0x03"] h3 h4
  have "\<exists>y. c_or_a ?e3 world0 = Some y" by blast
  ultimately show ?thesis by blast
qed

subsection \<open>Where the code departs from the specification\<close>

text \<open>
  C3. Prompt X, answer Y, one second, no keystroke, on a terminal type without the
  clear-to-end-of-line capability: the timeout handler raises \<open>TypeError\<close> in
  \<open>clear_line\<close>, the notice is not written and no result is returned. With the capability
  the result carries the answer Y.
\<close>

theorem timeout_answer_type_error:
  "map_option fst
     (run (dumb_env (script [] Blocked))
        (args0\<lparr>arg_prompt := Some ''X'', arg_seconds := Some (IntValue 1),
               arg_timeout_answer := Some ''Y''\<rparr>) world0) = Some (Raised format_error) \<and>
   map_option (out_log \<circ> snd)
     (run (dumb_env (script [] Blocked))
        (args0\<lparr>arg_prompt := Some ''X'', arg_seconds := Some (IntValue 1),
               arg_timeout_answer := Some ''Y''\<rparr>) world0) =
     Some [Display ''Pausing for 1 seconds!'', Display (''[pause]'' @ [CHR 0x0A] @ ''X:''),
           Write [CHR 0x1B, CHR ''['', CHR 0x0D]] \<and>
   map_option fst
     (run (tty_env (script [] Blocked))
        (args0\<lparr>arg_prompt := Some ''X'', arg_seconds := Some (IntValue 1),
               arg_timeout_answer := Some ''Y''\<rparr>) world0) =
     Some (Returned (result0\<lparr>user_input := Some ''Y''\<rparr>))"
  by (simp add: run_eval machine_defs)

text \<open>
  C4. A \<open>seconds\<close> option on which \<open>int\<close> raises \<open>TypeError\<close> (a null) or
  \<open>OverflowError\<close> (an infinite float): the call raises that exception to the caller
  instead of returning a failed result; only \<open>ValueError\<close> gives the failed result. The
  world is unchanged in all three cases.
\<close>

theorem seconds_conversion_raises:
  "run (tty_env (script [] Blocked)) (args0\<lparr>arg_seconds := Some (IntTypeError ''null'')\<rparr>) world0 =
     Some (Raised (TypeError ''null''), world0) \<and>
   run (tty_env (script [] Blocked)) (args0\<lparr>arg_seconds := Some (IntOverflowError ''inf'')\<rparr>) world0 =
     Some (Raised (OverflowError ''inf''), world0) \<and>
   run (tty_env (script [] Blocked)) (args0\<lparr>arg_seconds := Some (IntValueError ''bad'')\<rparr>) world0 =
     Some (Returned (result0\<lparr>failed := True,
             msg := Some (''non-integer value given for prompt duration:'' @ [CHR 0x0A] @ ''bad'')\<rparr>),
           world0)"
  by (simp add: run_def run_seconds_def args0_def)

text \<open>
  C5. On a terminal type without the clear-to-end-of-line capability the keys a, b, erase,
  erase, c, newline, and a newline alone, end in \<open>TypeError\<close> raised by \<open>clear_line\<close>;
  with the capability the first sequence gives the input c.
\<close>

theorem line_editing_type_error:
  "map_option fst
     (run (dumb_env (script [Byte CHR ''a'', Byte CHR ''b'', Byte (CHR 0x7F), Byte (CHR 0x7F),
                             Byte CHR ''c'', Byte (CHR 0x0A)] Blocked))
        (args0\<lparr>arg_echo := Some (BoolValue True)\<rparr>) world0) = Some (Raised format_error) \<and>
   map_option fst
     (run (dumb_env (script [Byte (CHR 0x0A)] Blocked)) args0 world0) =
     Some (Raised format_error) \<and>
   map_option fst
     (run (tty_env (script [Byte CHR ''a'', Byte CHR ''b'', Byte (CHR 0x7F), Byte (CHR 0x7F),
                            Byte CHR ''c'', Byte (CHR 0x0A)] Blocked))
        (args0\<lparr>arg_echo := Some (BoolValue True)\<rparr>) world0) =
     Some (Returned (result0\<lparr>user_input := Some ''c''\<rparr>))"
  by (simp add: run_eval machine_defs)

text \<open>
  C7. Standard input that is open but not a terminal (a pipe at end of file): the call
  reads, then raises \<open>UnboundLocalError\<close> for \<open>intr\<close>, which is assigned only on a
  terminal, instead of warning and returning. With no descriptor at all the call does warn
  and return an empty input.
\<close>

theorem pipe_stdin_raises:
  "map_option fst (run (pipe_env (script [] EOF)) args0 world0) =
     Some (Raised (UnboundLocalError ''intr'')) \<and>
   map_option fst (run ((tty_env (script [] EOF))\<lparr>new_stdin := None\<rparr>) args0 world0) =
     Some (Returned (result0\<lparr>user_input := Some []\<rparr>))"
  by (simp add: run_eval machine_defs)

text \<open>
  C8. A prompt with \<open>seconds = 5\<close> answered by a newline: the call returns normally and
  the alarm is still armed with its five seconds. Only the interrupt handler disarms it.
\<close>

theorem alarm_left_armed:
  "map_option fst
     (run (tty_env (script [Byte (CHR 0x0A)] Blocked))
        (args0\<lparr>arg_prompt := Some ''X'', arg_seconds := Some (IntValue 5)\<rparr>) world0) =
     Some (Returned (result0\<lparr>user_input := Some []\<rparr>)) \<and>
   map_option (alarm \<circ> snd)
     (run (tty_env (script [Byte (CHR 0x0A)] Blocked))
        (args0\<lparr>arg_prompt := Some ''X'', arg_seconds := Some (IntValue 5)\<rparr>) world0) = Some 5"
  by (simp add: run_eval machine_defs)

text \<open>
  C9. Without the \<open>echo\<close> option the driver's echo is off when the read loop starts, and
  the \<open>echo\<close> field of the result is \<open>None\<close>; with \<open>echo\<close> true the loop does echo
  but the field of the result is \<open>None\<close> all the same.
\<close>

theorem echo_default_not_true:
  "lflag_echo (terminals (loop_entry (tty_env (script [Byte (CHR 0x0A)] Blocked)) args0 world0) 0) = False \<and>
   map_option fst (run (tty_env (script [Byte (CHR 0x0A)] Blocked)) args0 world0) =
     Some (Returned (result0\<lparr>user_input := Some []\<rparr>)) \<and>
   lflag_echo (terminals (loop_entry (tty_env (script [Byte (CHR 0x0A)] Blocked))
       (args0\<lparr>arg_echo := Some (BoolValue True)\<rparr>) world0) 0) = True \<and>
   map_option fst (run (tty_env (script [Byte (CHR 0x0A)] Blocked))
       (args0\<lparr>arg_echo := Some (BoolValue True)\<rparr>) world0) =
     Some (Returned (result0\<lparr>user_input := Some []\<rparr>)) \<and>
   res_echo (result0\<lparr>user_input := Some []\<rparr>) = None"
  by (simp add: run_eval machine_defs result0_def)

end
